theory Spec2Isabelle
  imports Main
begin

section \<open>Data model\<close>

text \<open>
  The component \<open>phone-engine-demo.tsx\<close> holds one pure function, \<open>phoneEngine\<close>, and
  three handlers that update the configuration state of the component.

  A JavaScript string is modelled as a \<open>string\<close>: the code only compares characters
  with the space and with the digit zero, and concatenates.

  A configuration object has the two fields of the interface \<open>CountryConfig\<close>
  (\<open>trunkPrefix\<close>, \<open>addLeadingZero\<close>). The engine also reads a \<open>country\<close> property of
  it, which the interface does not declare; the objects the component stores do carry
  one. Reading a property that an object lacks gives \<open>undefined\<close>, here \<open>None\<close>.
\<close>

record CountryConfig =
  country :: "string option"
  trunkPrefix :: string
  addLeadingZero :: bool

type_synonym Configs = "string \<rightharpoonup> CountryConfig"

text \<open>
  The second argument of \<open>phoneEngine\<close> is an object that may lack any of the three
  properties (its default is the empty object).
\<close>

record options =
  opt_country :: "string option"
  opt_trunkPrefix :: "string option"
  opt_addLeadingZero :: "bool option"

text \<open>
  What the external parser gives back for a number: the detected country (which the
  library leaves undefined for some numbers), the national number, the answers of
  \<open>isValid()\<close> and \<open>isPossible()\<close>, and the string \<open>format('E.164')\<close> returns.
\<close>

record PhoneNumber =
  pn_country :: "string option"
  nationalNumber :: string
  pn_isValid :: bool
  pn_isPossible :: bool
  format_E164 :: string

record result =
  e164 :: string
  forAsterisk :: string
  isValid :: bool

datatype error = ParseError

text \<open>
  The parser is not part of the repository, so it is a parameter of the engine.
  \<open>Inl\<close> is a raised error, \<open>Inr None\<close> is the value \<open>undefined\<close>.
\<close>

type_synonym parser = "string \<Rightarrow> string option \<Rightarrow> error + PhoneNumber option"


section \<open>The engine\<close>

text \<open>Lines 24 to 29: the defaults, overlaid by the properties that \<open>options\<close> has.\<close>

definition defaults :: "options \<Rightarrow> CountryConfig" where
  "defaults opts =
     \<lparr> country = Some (case opt_country opts of None \<Rightarrow> [] | Some c \<Rightarrow> c),
       trunkPrefix = (case opt_trunkPrefix opts of None \<Rightarrow> [] | Some t \<Rightarrow> t),
       addLeadingZero = (case opt_addLeadingZero opts of None \<Rightarrow> False | Some b \<Rightarrow> b) \<rparr>"

text \<open>
  A property access \<open>obj[k]\<close> turns the key into a string first; the value
  \<open>undefined\<close> becomes the key \<open>undefined\<close>.
\<close>

definition property_key :: "string option \<Rightarrow> string" where
  "property_key k = (case k of None \<Rightarrow> ''undefined'' | Some s \<Rightarrow> s)"

text \<open>
  Lines 44 to 46: an entry stored under the parsed country replaces \<open>config\<close> as a whole
  (an object is always truthy).
\<close>

definition override :: "Configs \<Rightarrow> PhoneNumber \<Rightarrow> CountryConfig \<Rightarrow> CountryConfig" where
  "override configs phoneNumber config =
     (case configs (property_key (pn_country phoneNumber)) of
        Some entry \<Rightarrow> entry
      | None \<Rightarrow> config)"

definition startsWith :: "string \<Rightarrow> string \<Rightarrow> bool" where
  "startsWith s p = (take (length p) s = p)"

text \<open>Lines 48 to 52.\<close>

definition processedNumber :: "CountryConfig \<Rightarrow> string \<Rightarrow> string" where
  "processedNumber config national =
     (if addLeadingZero config \<and> \<not> startsWith national ''0''
      then ''0'' @ national else national)"

text \<open>Lines 55 to 57: a string is truthy when it is not empty.\<close>

definition candidate :: "CountryConfig \<Rightarrow> string \<Rightarrow> string" where
  "candidate config processed =
     (if trunkPrefix config \<noteq> [] then trunkPrefix config @ processed else processed)"

text \<open>\<open>number.replaceAll(' ', '')\<close> deletes every occurrence of the space U+0020.\<close>

definition replaceAll_space :: "string \<Rightarrow> string" where
  "replaceAll_space number = filter (\<lambda>c. c \<noteq> CHR '' '') number"

definition failed :: result where
  "failed = \<lparr> e164 = [], forAsterisk = [], isValid = False \<rparr>"

text \<open>
  Lines 58 to 63, for a parsed number and the configuration in force.
\<close>

definition finish :: "string \<Rightarrow> PhoneNumber \<Rightarrow> CountryConfig \<Rightarrow> result" where
  "finish number phoneNumber config =
     (let processed = processedNumber config (nationalNumber phoneNumber);
          dial = candidate config processed;
          valid = (pn_isValid phoneNumber \<and> pn_isPossible phoneNumber)
      in \<lparr> e164 = (if valid then format_E164 phoneNumber else ''---''),
           forAsterisk = (if valid \<and> pn_country phoneNumber = country config
                          then dial else replaceAll_space number),
           isValid = valid \<rparr>)"

text \<open>
  The whole function. A result \<open>Inl\<close> would be an error that leaves the function; the
  error of the parser is caught (lines 33 to 38) and turned into a returned object.
\<close>

definition phoneEngine :: "parser \<Rightarrow> string \<Rightarrow> options \<Rightarrow> Configs \<Rightarrow> error + result" where
  "phoneEngine parse number opts configs =
     (let config = defaults opts in
      case parse number (country config) of
        Inl err \<Rightarrow> Inr failed
      | Inr None \<Rightarrow> Inr failed
      | Inr (Some phoneNumber) \<Rightarrow>
          Inr (finish number phoneNumber (override configs phoneNumber config)))"


section \<open>The configuration state and its handlers\<close>

record registry =
  countryConfigs :: Configs
  defaultConfig :: string

text \<open>Lines 92 to 97: the form's configuration is stored under its own country.\<close>

definition handleAddConfig :: "CountryConfig \<Rightarrow> registry \<Rightarrow> registry" where
  "handleAddConfig config s =
     s\<lparr> countryConfigs := (countryConfigs s)(property_key (country config) \<mapsto> config) \<rparr>"

text \<open>Lines 99 to 106.\<close>

definition handleRemoveConfig :: "string \<Rightarrow> registry \<Rightarrow> registry" where
  "handleRemoveConfig c s =
     (let newConfigs = (countryConfigs s)(c := None) in
      \<lparr> countryConfigs = newConfigs,
        defaultConfig = (if defaultConfig s = c then ''EG'' else defaultConfig s) \<rparr>)"

text \<open>Line 221: the selector of the default country.\<close>

definition setDefaultConfig :: "string \<Rightarrow> registry \<Rightarrow> registry" where
  "setDefaultConfig c s = s\<lparr> defaultConfig := c \<rparr>"

text \<open>
  Line 79: the options given to the engine are the entry of the default country, or the
  empty object when there is none.
\<close>

definition as_options :: "CountryConfig \<Rightarrow> options" where
  "as_options entry =
     \<lparr> opt_country = country entry,
       opt_trunkPrefix = Some (trunkPrefix entry),
       opt_addLeadingZero = Some (addLeadingZero entry) \<rparr>"

definition no_options :: options where
  "no_options = \<lparr> opt_country = None, opt_trunkPrefix = None, opt_addLeadingZero = None \<rparr>"

definition default_options :: "registry \<Rightarrow> options" where
  "default_options s =
     (case countryConfigs s (defaultConfig s) of
        Some entry \<Rightarrow> as_options entry
      | None \<Rightarrow> no_options)"

text \<open>Lines 77 to 85: the result shown, or \<open>None\<close> for \<open>setResult(null)\<close>.\<close>

definition handleProcess :: "parser \<Rightarrow> string \<Rightarrow> registry \<Rightarrow> result option" where
  "handleProcess parse phoneNumber s =
     (case phoneEngine parse phoneNumber (default_options s) (countryConfigs s) of
        Inr processed \<Rightarrow> Some processed
      | Inl err \<Rightarrow> None)"


section \<open>The entries the component stores\<close>

text \<open>
  \<open>phoneEngine\<close> is not exported; the component calls it on line 79 with its own
  registry, which only \<open>handleAddConfig\<close> extends, with the form's state. Every entry
  of such a registry carries, as its country, the key it is stored under.
\<close>

definition keyed :: "Configs \<Rightarrow> bool" where
  "keyed configs = (\<forall>k entry. configs k = Some entry \<longrightarrow> country entry = Some k)"


section \<open>Whitespace, as the specification words it\<close>

text \<open>
  The specification speaks of removing all whitespace characters. The characters that
  ECMAScript counts as whitespace or line terminators, among the first 256 code points:
  tab, line feed, vertical tab, form feed, carriage return, space and no-break space.
  \<open>strip_whitespace\<close> follows the specification's words, to be compared with
  \<open>replaceAll_space\<close>, which follows line 61.
\<close>

definition is_whitespace :: "char \<Rightarrow> bool" where
  "is_whitespace c =
     (c \<in> set [CHR 0x09, CHR 0x0A, CHR 0x0B, CHR 0x0C, CHR 0x0D, CHR 0x20, CHR 0xA0])"

definition strip_whitespace :: "string \<Rightarrow> string" where
  "strip_whitespace s = filter (\<lambda>c. \<not> is_whitespace c) s"


section \<open>Concrete inputs\<close>

text \<open>
  The Egyptian mobile number of the specification's first example, as the parser
  describes it, and parsers that answer every call the same way.
\<close>

definition eg_number :: PhoneNumber where
  "eg_number = \<lparr> pn_country = Some ''EG'', nationalNumber = ''1012345678'',
       pn_isValid = True, pn_isPossible = True, format_E164 = ''+201012345678'' \<rparr>"

definition eg_parser :: parser where
  "eg_parser number hint = Inr (Some eg_number)"

definition impossible_number :: PhoneNumber where
  "impossible_number = \<lparr> pn_country = Some ''EG'', nationalNumber = ''123'',
       pn_isValid = True, pn_isPossible = False, format_E164 = ''+20123'' \<rparr>"

definition impossible_parser :: parser where
  "impossible_parser number hint = Inr (Some impossible_number)"

definition rejecting_parser :: parser where
  "rejecting_parser number hint = Inl ParseError"

definition silent_parser :: parser where
  "silent_parser number hint = Inr None"

definition caller_EG :: options where
  "caller_EG = \<lparr> opt_country = Some ''EG'', opt_trunkPrefix = None,
       opt_addLeadingZero = None \<rparr>"

definition caller_US :: options where
  "caller_US = \<lparr> opt_country = Some ''US'', opt_trunkPrefix = Some ''9'',
       opt_addLeadingZero = Some True \<rparr>"

text \<open>
  The entry for Egypt in the shape the interface declares, and in the shape
  \<open>handleAddConfig\<close> stores it (the form's state, which has a country).
\<close>

definition declared_EG :: CountryConfig where
  "declared_EG = \<lparr> country = None, trunkPrefix = ''0'', addLeadingZero = False \<rparr>"

definition stored_EG :: CountryConfig where
  "stored_EG = \<lparr> country = Some ''EG'', trunkPrefix = ''0'', addLeadingZero = False \<rparr>"

definition zero_SA :: CountryConfig where
  "zero_SA = \<lparr> country = Some ''SA'', trunkPrefix = ''9'', addLeadingZero = True \<rparr>"

definition declared_registry :: Configs where
  "declared_registry = [''EG'' \<mapsto> declared_EG]"

definition stored_registry :: Configs where
  "stored_registry = [''EG'' \<mapsto> stored_EG]"

text \<open>
  A number of a numbering plan that belongs to no country (an international freephone
  number), for which the parser leaves the country undefined, and a registry with an
  entry of the declared shape under the key \<open>undefined\<close>.
\<close>

definition nogeo_number :: PhoneNumber where
  "nogeo_number = \<lparr> pn_country = None, nationalNumber = ''12345678'',
       pn_isValid = True, pn_isPossible = True, format_E164 = ''+80012345678'' \<rparr>"

definition nogeo_parser :: parser where
  "nogeo_parser number hint = Inr (Some nogeo_number)"

definition declared_nine :: CountryConfig where
  "declared_nine = \<lparr> country = None, trunkPrefix = ''9'', addLeadingZero = False \<rparr>"

definition undefined_registry :: Configs where
  "undefined_registry = [''undefined'' \<mapsto> declared_nine]"

definition no_configs :: Configs where
  "no_configs = Map.empty"

definition eg_state :: registry where
  "eg_state = \<lparr> countryConfigs = stored_registry, defaultConfig = ''EG'' \<rparr>"

definition us_state :: registry where
  "us_state = \<lparr> countryConfigs = stored_registry, defaultConfig = ''US'' \<rparr>"


section \<open>Basic facts\<close>

lemma phoneEngine_parsed:
  "parse number (country (defaults opts)) = Inr (Some p) \<Longrightarrow>
   phoneEngine parse number opts configs
     = Inr (finish number p (override configs p (defaults opts)))"
  by (simp add: phoneEngine_def)

lemma override_hit:
  "pn_country p = Some b \<Longrightarrow> configs b = Some entry \<Longrightarrow> override configs p config = entry"
  by (simp add: override_def property_key_def)

lemma override_miss:
  "configs (property_key (pn_country p)) = None \<Longrightarrow> override configs p config = config"
  by (simp add: override_def)

lemma replaceAll_space_example:
  "replaceAll_space ''+20 101 234 5678'' = ''+201012345678''"
  by (simp add: replaceAll_space_def)

lemma replaceAll_space_idem:
  "replaceAll_space (replaceAll_space number) = replaceAll_space number"
  by (simp add: replaceAll_space_def)

lemma strip_whitespace_replaceAll_space:
  "strip_whitespace (replaceAll_space number) = strip_whitespace number"
  by (induction number) (simp_all add: strip_whitespace_def replaceAll_space_def is_whitespace_def)


section \<open>Registry override\<close>

text \<open>
  C1. When the parser resolves the number to a country \<open>b\<close> for which the registry has an
  entry, that entry replaces the configuration as a whole, and the result is computed from
  the number, the parsed number and that entry alone: two calls that differ in the
  caller's options, in the parser and in the rest of the registry return the same.
\<close>

theorem registry_override_precedence:
  assumes "parseA number (country (defaults optsA)) = Inr (Some p)"
    and "parseB number (country (defaults optsB)) = Inr (Some p)"
    and "pn_country p = Some b"
    and "configsA b = Some entry"
    and "configsB b = Some entry"
  shows "override configsA p (defaults optsA) = entry
       \<and> phoneEngine parseA number optsA configsA = Inr (finish number p entry)
       \<and> phoneEngine parseA number optsA configsA = phoneEngine parseB number optsB configsB"
  using assms by (simp add: phoneEngine_parsed override_hit)

theorem registry_override_precedence_witness:
  "eg_parser ''+20 101 234 5678'' (country (defaults caller_US)) = Inr (Some eg_number)
   \<and> eg_parser ''+20 101 234 5678'' (country (defaults no_options)) = Inr (Some eg_number)
   \<and> pn_country eg_number = Some ''EG''
   \<and> stored_registry ''EG'' = Some stored_EG
   \<and> override stored_registry eg_number (defaults caller_US) = stored_EG
   \<and> phoneEngine eg_parser ''+20 101 234 5678'' caller_US stored_registry
       = Inr \<lparr> e164 = ''+201012345678'', forAsterisk = ''01012345678'', isValid = True \<rparr>
   \<and> phoneEngine eg_parser ''+20 101 234 5678'' caller_US stored_registry
       = phoneEngine eg_parser ''+20 101 234 5678'' no_options stored_registry"
proof -
  have h1: "eg_parser ''+20 101 234 5678'' (country (defaults caller_US)) = Inr (Some eg_number)"
    by (simp add: eg_parser_def)
  have h2: "eg_parser ''+20 101 234 5678'' (country (defaults no_options)) = Inr (Some eg_number)"
    by (simp add: eg_parser_def)
  have h3: "pn_country eg_number = Some ''EG''"
    by (simp add: eg_number_def)
  have h4: "stored_registry ''EG'' = Some stored_EG"
    by (simp add: stored_registry_def)
  have fin: "finish ''+20 101 234 5678'' eg_number stored_EG
       = \<lparr> e164 = ''+201012345678'', forAsterisk = ''01012345678'', isValid = True \<rparr>"
    by (simp add: finish_def eg_number_def stored_EG_def processedNumber_def candidate_def
        startsWith_def)
  note inst = registry_override_precedence [where parseA = eg_parser and parseB = eg_parser
      and number = "''+20 101 234 5678''" and optsA = caller_US and optsB = no_options
      and p = eg_number and b = "''EG''" and configsA = stored_registry
      and configsB = stored_registry and entry = stored_EG, OF h1 h2 h3 h4 h4]
  from inst h1 h2 h3 h4 show ?thesis unfolding fin by blast
qed


section \<open>The gate on the country\<close>

text \<open>
  C2, as amended. When the parser gives a number that is valid and possible, the dial format is
  the trunk-prefixed candidate if the detected country equals the country of the
  configuration in force (after the override), and otherwise the raw input with every
  space character U+0020 removed, whatever the trunk prefix and the leading-zero flag are.
\<close>

theorem country_match_gating:
  assumes "parse number (country (defaults opts)) = Inr (Some p)"
    and "pn_isValid p"
    and "pn_isPossible p"
  shows "\<exists>r. phoneEngine parse number opts configs = Inr r
       \<and> forAsterisk r =
          (let config = override configs p (defaults opts) in
           if pn_country p = country config
           then candidate config (processedNumber config (nationalNumber p))
           else replaceAll_space number)"
  using assms by (simp add: phoneEngine_parsed finish_def Let_def)

theorem country_match_gating_witness:
  "eg_parser ''+20 101 234 5678'' (country (defaults caller_US)) = Inr (Some eg_number)
   \<and> pn_isValid eg_number \<and> pn_isPossible eg_number
   \<and> pn_country eg_number \<noteq> country (override no_configs eg_number (defaults caller_US))
   \<and> (\<exists>r. phoneEngine eg_parser ''+20 101 234 5678'' caller_US no_configs = Inr r
          \<and> forAsterisk r = ''+201012345678'')"
proof -
  have h1: "eg_parser ''+20 101 234 5678'' (country (defaults caller_US)) = Inr (Some eg_number)"
    by (simp add: eg_parser_def)
  have h2: "pn_isValid eg_number" and h3: "pn_isPossible eg_number"
    by (simp_all add: eg_number_def)
  have h4: "pn_country eg_number \<noteq> country (override no_configs eg_number (defaults caller_US))"
    by (simp add: eg_number_def override_def no_configs_def defaults_def caller_US_def)
  note inst = country_match_gating [where parse = eg_parser
      and number = "''+20 101 234 5678''" and opts = caller_US and p = eg_number
      and configs = no_configs, OF h1 h2 h3]
  from inst h1 h2 h3 h4 replaceAll_space_example
  show ?thesis by (simp add: Let_def)
qed

text \<open>
  C2 as it is written asks for every whitespace character to be removed. A raw input that
  ends in a tab, parsed as the valid Egyptian number while no country is configured:
  the countries differ, the dial format keeps the tab, and removing all whitespace
  would not.
\<close>

theorem whitespace_removal_counterexample:
  "eg_parser (''+20 101 234 5678'' @ [CHR 0x09]) (country (defaults no_options))
     = Inr (Some eg_number)
   \<and> pn_isValid eg_number \<and> pn_isPossible eg_number
   \<and> pn_country eg_number \<noteq> country (override no_configs eg_number (defaults no_options))
   \<and> phoneEngine eg_parser (''+20 101 234 5678'' @ [CHR 0x09]) no_options no_configs
       = Inr \<lparr> e164 = ''+201012345678'', forAsterisk = ''+201012345678'' @ [CHR 0x09],
               isValid = True \<rparr>
   \<and> ''+201012345678'' @ [CHR 0x09] \<noteq> strip_whitespace (''+20 101 234 5678'' @ [CHR 0x09])"
  by (simp add: phoneEngine_def eg_parser_def eg_number_def no_options_def no_configs_def
      defaults_def override_def property_key_def finish_def processedNumber_def candidate_def
      startsWith_def replaceAll_space_def strip_whitespace_def is_whitespace_def)


section \<open>The Egyptian example\<close>

text \<open>Registries built by the handlers from the empty one are keyed.\<close>

lemma keyed_empty: "keyed Map.empty"
  by (simp add: keyed_def)

lemma keyed_handleAddConfig:
  assumes "keyed (countryConfigs s)" and "country config = Some c"
  shows "keyed (countryConfigs (handleAddConfig config s))"
  using assms by (simp add: keyed_def handleAddConfig_def property_key_def)

lemma keyed_handleRemoveConfig:
  assumes "keyed (countryConfigs s)"
  shows "keyed (countryConfigs (handleRemoveConfig c s))"
  using assms by (simp add: keyed_def handleRemoveConfig_def)

lemma keyed_setDefaultConfig:
  assumes "keyed (countryConfigs s)"
  shows "keyed (countryConfigs (setDefaultConfig c s))"
  using assms by (simp add: setDefaultConfig_def)

lemma keyed_stored_registry: "keyed stored_registry"
  by (simp add: keyed_def stored_registry_def stored_EG_def)

lemma not_keyed_declared_registry: "\<not> keyed declared_registry"
  by (simp add: keyed_def declared_registry_def declared_EG_def)

lemma keyed_override_prefixed:
  assumes "keyed configs"
    and "parse number (country (defaults opts)) = Inr (Some p)"
    and "pn_country p = Some b"
    and "configs b = Some entry"
    and "pn_isValid p" and "pn_isPossible p"
  shows "phoneEngine parse number opts configs
           = Inr \<lparr> e164 = format_E164 p,
                   forAsterisk = candidate entry (processedNumber entry (nationalNumber p)),
                   isValid = True \<rparr>"
proof -
  have "country entry = Some b"
    using assms(1,4) by (simp add: keyed_def)
  then show ?thesis
    using assms by (simp add: phoneEngine_parsed override_hit finish_def Let_def)
qed

text \<open>
  C3, as amended. The input of the example: raw number \<open>+20 101 234 5678\<close>, caller
  configuration with country EG only, a parser that resolves country EG with national
  number \<open>1012345678\<close>, valid and possible, and a registry that maps EG to the entry
  the component stores for trunk prefix 0 and no leading zero, which carries the
  country EG. The result has \<open>e164\<close> \<open>+201012345678\<close>, dial format \<open>01012345678\<close> and
  \<open>isValid\<close> true.
\<close>

theorem example_EG_stored_registry:
  assumes "parse ''+20 101 234 5678'' (Some ''EG'') = Inr (Some p)"
    and "pn_country p = Some ''EG''"
    and "nationalNumber p = ''1012345678''"
    and "pn_isValid p" and "pn_isPossible p"
    and "format_E164 p = ''+201012345678''"
    and "configs ''EG''
           = Some \<lparr> country = Some ''EG'', trunkPrefix = ''0'', addLeadingZero = False \<rparr>"
  shows "phoneEngine parse ''+20 101 234 5678'' caller_EG configs
           = Inr \<lparr> e164 = ''+201012345678'', forAsterisk = ''01012345678'', isValid = True \<rparr>"
proof -
  have hint: "country (defaults caller_EG) = Some ''EG''"
    by (simp add: defaults_def caller_EG_def)
  have run: "phoneEngine parse ''+20 101 234 5678'' caller_EG configs
      = Inr (finish ''+20 101 234 5678'' p
          \<lparr> country = Some ''EG'', trunkPrefix = ''0'', addLeadingZero = False \<rparr>)"
    using assms(1,2,7) by (simp add: phoneEngine_parsed hint override_hit)
  show ?thesis
    unfolding run using assms(2-6)
    by (simp add: finish_def processedNumber_def candidate_def startsWith_def)
qed

theorem example_EG_stored_registry_witness:
  "eg_parser ''+20 101 234 5678'' (Some ''EG'') = Inr (Some eg_number)
   \<and> pn_country eg_number = Some ''EG''
   \<and> nationalNumber eg_number = ''1012345678''
   \<and> pn_isValid eg_number \<and> pn_isPossible eg_number
   \<and> format_E164 eg_number = ''+201012345678''
   \<and> stored_registry ''EG''
        = Some \<lparr> country = Some ''EG'', trunkPrefix = ''0'', addLeadingZero = False \<rparr>
   \<and> phoneEngine eg_parser ''+20 101 234 5678'' caller_EG stored_registry
        = Inr \<lparr> e164 = ''+201012345678'', forAsterisk = ''01012345678'', isValid = True \<rparr>"
proof -
  have h1: "eg_parser ''+20 101 234 5678'' (Some ''EG'') = Inr (Some eg_number)"
    by (simp add: eg_parser_def)
  have h2: "pn_country eg_number = Some ''EG''"
    and h3: "nationalNumber eg_number = ''1012345678''"
    and h4: "pn_isValid eg_number" and h5: "pn_isPossible eg_number"
    and h6: "format_E164 eg_number = ''+201012345678''"
    by (simp_all add: eg_number_def)
  have h7: "stored_registry ''EG''
      = Some \<lparr> country = Some ''EG'', trunkPrefix = ''0'', addLeadingZero = False \<rparr>"
    by (simp add: stored_registry_def stored_EG_def)
  note inst = example_EG_stored_registry [where parse = eg_parser and p = eg_number
      and configs = stored_registry, OF h1 h2 h3 h4 h5 h6 h7]
  from h1 h2 h3 h4 h5 h6 h7 inst show ?thesis by blast
qed

text \<open>
  C3 as it is written gives the EG entry with a trunk prefix and a leading-zero flag
  only. The override replaces the configuration by that entry, which has no country,
  so the comparison of line 61 fails and the dial format is the raw input without
  spaces, not \<open>01012345678\<close>.
\<close>

theorem example_EG_declared_entry:
  "phoneEngine eg_parser ''+20 101 234 5678'' caller_EG declared_registry
     = Inr \<lparr> e164 = ''+201012345678'', forAsterisk = ''+201012345678'', isValid = True \<rparr>
   \<and> phoneEngine eg_parser ''+20 101 234 5678'' caller_EG declared_registry
     \<noteq> Inr \<lparr> e164 = ''+201012345678'', forAsterisk = ''01012345678'', isValid = True \<rparr>"
  by (simp add: phoneEngine_def eg_parser_def eg_number_def caller_EG_def declared_registry_def
      declared_EG_def defaults_def override_def property_key_def finish_def processedNumber_def
      candidate_def startsWith_def replaceAll_space_def)

text \<open>
  The same results at the concrete inputs: the stored entry, the trunk prefix in the
  caller's own configuration without a registry entry, and the registry that
  \<open>handleAddConfig\<close> builds.
\<close>

lemma example_EG_stored_entry:
  "phoneEngine eg_parser ''+20 101 234 5678'' caller_EG stored_registry
     = Inr \<lparr> e164 = ''+201012345678'', forAsterisk = ''01012345678'', isValid = True \<rparr>"
  by (simp add: phoneEngine_def eg_parser_def eg_number_def caller_EG_def stored_registry_def
      stored_EG_def defaults_def override_def property_key_def finish_def processedNumber_def
      candidate_def startsWith_def replaceAll_space_def)

lemma example_EG_caller_prefix:
  "phoneEngine eg_parser ''+20 101 234 5678'' (as_options stored_EG) no_configs
     = Inr \<lparr> e164 = ''+201012345678'', forAsterisk = ''01012345678'', isValid = True \<rparr>"
  by (simp add: phoneEngine_def eg_parser_def eg_number_def as_options_def no_configs_def
      stored_EG_def defaults_def override_def property_key_def finish_def processedNumber_def
      candidate_def startsWith_def replaceAll_space_def)

lemma handleAddConfig_stores_country:
  "countryConfigs (handleAddConfig stored_EG \<lparr> countryConfigs = no_configs, defaultConfig = ''EG'' \<rparr>)
     = stored_registry"
  by (simp add: handleAddConfig_def stored_registry_def stored_EG_def no_configs_def
      property_key_def)


section \<open>Input that does not parse\<close>

text \<open>
  C4, as amended. For every input the engine returns a result object and no error leaves it; when
  the parser rejects the input, by raising or by returning no number, the result has
  \<open>isValid\<close> false, an empty \<open>e164\<close> and an empty dial format.
\<close>

theorem failsoft_totality:
  "(\<exists>r. phoneEngine parse number opts configs = Inr r)
   \<and> (parse number (country (defaults opts)) = Inl err
        \<or> parse number (country (defaults opts)) = Inr None \<longrightarrow>
        phoneEngine parse number opts configs
          = Inr \<lparr> e164 = [], forAsterisk = [], isValid = False \<rparr>)"
proof (cases "parse number (country (defaults opts))")
  case (Inl e)
  then show ?thesis by (simp add: phoneEngine_def failed_def)
next
  case (Inr v)
  then show ?thesis by (cases v) (simp_all add: phoneEngine_def failed_def)
qed

theorem failsoft_totality_witness:
  "(rejecting_parser ''abc'' (country (defaults caller_EG)) = Inl ParseError
      \<or> rejecting_parser ''abc'' (country (defaults caller_EG)) = Inr None)
   \<and> (\<exists>r. phoneEngine rejecting_parser ''abc'' caller_EG no_configs = Inr r)
   \<and> phoneEngine rejecting_parser ''abc'' caller_EG no_configs
       = Inr \<lparr> e164 = [], forAsterisk = [], isValid = False \<rparr>"
proof -
  have h: "rejecting_parser ''abc'' (country (defaults caller_EG)) = Inl ParseError
      \<or> rejecting_parser ''abc'' (country (defaults caller_EG)) = Inr None"
    by (simp add: rejecting_parser_def)
  note inst = failsoft_totality [where parse = rejecting_parser and number = "''abc''"
      and opts = caller_EG and configs = no_configs and err = ParseError]
  from inst h show ?thesis by blast
qed

text \<open>
  C4 as it is written expects the sentinel \<open>---\<close> in \<open>e164\<close> for rejected input. The
  early returns of lines 37 and 41 give the empty string.
\<close>

theorem failsoft_sentinel_counterexample:
  "rejecting_parser ''abc'' (country (defaults caller_EG)) = Inl ParseError
   \<and> phoneEngine rejecting_parser ''abc'' caller_EG no_configs
       = Inr \<lparr> e164 = [], forAsterisk = [], isValid = False \<rparr>
   \<and> phoneEngine rejecting_parser ''abc'' caller_EG no_configs
       \<noteq> Inr \<lparr> e164 = ''---'', forAsterisk = [], isValid = False \<rparr>"
  by (simp add: phoneEngine_def rejecting_parser_def failed_def)

text \<open>
  C5. When the parser raises or returns no number, the engine returns exactly the object
  with empty \<open>e164\<close>, empty dial format and \<open>isValid\<close> false, as a value.
\<close>

theorem parse_failure_short_circuit:
  assumes "parse number (country (defaults opts)) = Inl err
         \<or> parse number (country (defaults opts)) = Inr None"
  shows "phoneEngine parse number opts configs
           = Inr \<lparr> e164 = [], forAsterisk = [], isValid = False \<rparr>"
  using assms by (auto simp: phoneEngine_def failed_def)

theorem parse_failure_short_circuit_witness:
  "(silent_parser ''123'' (country (defaults caller_EG)) = Inl ParseError
      \<or> silent_parser ''123'' (country (defaults caller_EG)) = Inr None)
   \<and> phoneEngine silent_parser ''123'' caller_EG stored_registry
       = Inr \<lparr> e164 = [], forAsterisk = [], isValid = False \<rparr>"
proof -
  have h: "silent_parser ''123'' (country (defaults caller_EG)) = Inl ParseError
      \<or> silent_parser ''123'' (country (defaults caller_EG)) = Inr None"
    by (simp add: silent_parser_def)
  note inst = parse_failure_short_circuit [where parse = silent_parser
      and number = "''123''" and opts = caller_EG and err = ParseError
      and configs = stored_registry, OF h]
  from h inst show ?thesis by (rule conjI)
qed


section \<open>Validity and the international format\<close>

text \<open>
  C6. For a parsed number, \<open>isValid\<close> of the result is the conjunction of the number's
  \<open>isValid()\<close> and \<open>isPossible()\<close>, and \<open>e164\<close> is the parser's E.164 string when the
  conjunction holds and the sentinel \<open>---\<close> otherwise.
\<close>

theorem validity_and_e164:
  assumes "parse number (country (defaults opts)) = Inr (Some p)"
  shows "\<exists>r. phoneEngine parse number opts configs = Inr r
       \<and> isValid r = (pn_isValid p \<and> pn_isPossible p)
       \<and> e164 r = (if pn_isValid p \<and> pn_isPossible p then format_E164 p else ''---'')"
  using assms by (simp add: phoneEngine_parsed finish_def Let_def)

theorem validity_and_e164_witness:
  "impossible_parser ''+20 123'' (country (defaults caller_EG)) = Inr (Some impossible_number)
   \<and> (\<exists>r. phoneEngine impossible_parser ''+20 123'' caller_EG no_configs = Inr r
          \<and> isValid r = False \<and> e164 r = ''---'')"
proof -
  have h: "impossible_parser ''+20 123'' (country (defaults caller_EG))
             = Inr (Some impossible_number)"
    by (simp add: impossible_parser_def)
  have v: "pn_isValid impossible_number" and i: "\<not> pn_isPossible impossible_number"
    by (simp_all add: impossible_number_def)
  note inst = validity_and_e164 [where parse = impossible_parser
      and number = "''+20 123''" and opts = caller_EG and p = impossible_number
      and configs = no_configs, OF h]
  from inst h v i show ?thesis by simp
qed


section \<open>The leading zero\<close>

text \<open>
  C7. Under a configuration with \<open>addLeadingZero\<close> set, the processed number is the
  national number itself when that starts with the digit 0, and the national number
  with one 0 in front otherwise; doing the step again changes nothing.
\<close>

theorem leading_zero_idempotent:
  assumes "addLeadingZero config"
  shows "processedNumber config national
           = (if startsWith national ''0'' then national else CHR ''0'' # national)
       \<and> processedNumber config (processedNumber config national)
           = processedNumber config national"
  using assms by (simp add: processedNumber_def startsWith_def)

theorem leading_zero_idempotent_witness:
  "addLeadingZero zero_SA
   \<and> processedNumber zero_SA ''512345678'' = ''0512345678''
   \<and> processedNumber zero_SA (processedNumber zero_SA ''512345678'')
       = processedNumber zero_SA ''512345678''"
proof -
  have h: "addLeadingZero zero_SA"
    by (simp add: zero_SA_def)
  have e: "startsWith ''512345678'' ''0'' = False"
    by (simp add: startsWith_def)
  note inst = leading_zero_idempotent [where config = zero_SA
      and national = "''512345678''", OF h]
  from h inst [unfolded e if_False] show ?thesis by (rule conjI)
qed


section \<open>The registry\<close>

text \<open>
  C8, as amended. Removing the country that is the current default sets the default to the constant
  EG, and the entry of the removed country is gone. After removing any country other
  than EG the default is not the removed country.
\<close>

theorem default_reset:
  "(defaultConfig s = c \<longrightarrow> defaultConfig (handleRemoveConfig c s) = ''EG'')
   \<and> (c \<noteq> ''EG'' \<longrightarrow> defaultConfig (handleRemoveConfig c s) \<noteq> c)
   \<and> countryConfigs (handleRemoveConfig c s) c = None"
  by (simp add: handleRemoveConfig_def)

theorem default_reset_witness:
  "defaultConfig us_state = ''US'' \<and> ''US'' \<noteq> ''EG''
   \<and> defaultConfig (handleRemoveConfig ''US'' us_state) = ''EG''
   \<and> defaultConfig (handleRemoveConfig ''US'' us_state) \<noteq> ''US''
   \<and> countryConfigs (handleRemoveConfig ''US'' us_state) ''US'' = None"
proof -
  have h: "defaultConfig us_state = ''US''"
    by (simp add: us_state_def)
  have n: "''US'' \<noteq> ''EG''"
    by simp
  from default_reset [of us_state "''US''"] h n
  show ?thesis by simp
qed

text \<open>
  C8 as it is written concludes that the default never names an entry that was just
  removed. Removing EG while EG is the default leaves the default at EG, whose entry
  is gone.
\<close>

theorem default_reset_counterexample:
  "defaultConfig eg_state = ''EG''
   \<and> countryConfigs eg_state ''EG'' = Some stored_EG
   \<and> defaultConfig (handleRemoveConfig ''EG'' eg_state) = ''EG''
   \<and> countryConfigs (handleRemoveConfig ''EG'' eg_state) ''EG'' = None"
  by (simp add: eg_state_def stored_registry_def handleRemoveConfig_def)

text \<open>
  C9. The three operations are functions of the state with no failing branch. For a
  country that has no entry: removing it leaves the entries as they were (the state
  changes at most in the default, which falls back to EG when it named that country);
  making it the default is accepted, and the engine is then given the empty options in
  place of the missing entry; adding a configuration stores it under its country.
\<close>

theorem registry_operations_total:
  assumes "countryConfigs s c = None"
  shows "handleRemoveConfig c s
           = s\<lparr> defaultConfig := (if defaultConfig s = c then ''EG'' else defaultConfig s) \<rparr>
       \<and> countryConfigs (handleRemoveConfig c s) = countryConfigs s
       \<and> setDefaultConfig c s = s\<lparr> defaultConfig := c \<rparr>
       \<and> default_options (setDefaultConfig c s) = no_options
       \<and> countryConfigs (handleAddConfig config s) (property_key (country config)) = Some config"
proof -
  have same: "(countryConfigs s)(c := None) = countryConfigs s"
    using assms by (simp add: fun_upd_idem)
  show ?thesis
    using assms
    by (simp add: handleRemoveConfig_def same setDefaultConfig_def default_options_def
        handleAddConfig_def)
qed

theorem registry_operations_total_witness:
  "countryConfigs eg_state ''SA'' = None
   \<and> handleRemoveConfig ''SA'' eg_state = eg_state
   \<and> countryConfigs (handleRemoveConfig ''SA'' eg_state) = countryConfigs eg_state
   \<and> setDefaultConfig ''SA'' eg_state = eg_state\<lparr> defaultConfig := ''SA'' \<rparr>
   \<and> default_options (setDefaultConfig ''SA'' eg_state) = no_options
   \<and> countryConfigs (handleAddConfig zero_SA eg_state) ''SA'' = Some zero_SA"
proof -
  have h: "countryConfigs eg_state ''SA'' = None"
    by (simp add: eg_state_def stored_registry_def)
  have k: "property_key (country zero_SA) = ''SA''"
    by (simp add: property_key_def zero_SA_def)
  have r: "eg_state\<lparr> defaultConfig :=
        (if defaultConfig eg_state = ''SA'' then ''EG'' else defaultConfig eg_state) \<rparr> = eg_state"
    by (simp add: eg_state_def)
  note inst = registry_operations_total [where s = eg_state and c = "''SA''"
      and config = zero_SA, OF h]
  from h inst [unfolded r k] show ?thesis by (rule conjI)
qed


section \<open>Entries of the declared shape\<close>

text \<open>
  The result when the override fires with an entry of the declared shape (a trunk
  prefix and a leading-zero flag, no country): the comparison of line 61 succeeds only
  when the parsed number has no country either.
\<close>

lemma declared_shape_dial_format:
  assumes "parse number (country (defaults opts)) = Inr (Some p)"
    and "configs (property_key (pn_country p)) = Some entry"
    and "country entry = None"
  shows "phoneEngine parse number opts configs
           = Inr \<lparr> e164 = (if pn_isValid p \<and> pn_isPossible p then format_E164 p else ''---''),
                   forAsterisk =
                     (if pn_isValid p \<and> pn_isPossible p \<and> pn_country p = None
                      then candidate entry (processedNumber entry (nationalNumber p))
                      else replaceAll_space number),
                   isValid = (pn_isValid p \<and> pn_isPossible p) \<rparr>"
  using assms by (simp add: phoneEngine_parsed override_def finish_def Let_def)

text \<open>
  C10, as amended. When the override fires for a parsed number that has a detected
  country, and the entry found has the declared shape, the override leaves a
  configuration without country, the comparison of line 61 fails, and the dial format
  is the raw input with the space characters removed, valid number or not.
\<close>

theorem declared_shape_never_prefixed:
  assumes "parse number (country (defaults opts)) = Inr (Some p)"
    and "configs (property_key (pn_country p)) = Some entry"
    and "country entry = None"
    and "pn_country p \<noteq> None"
  shows "override configs p (defaults opts) = entry
       \<and> (\<exists>r. phoneEngine parse number opts configs = Inr r
              \<and> forAsterisk r = replaceAll_space number)"
proof -
  have fired: "override configs p (defaults opts) = entry"
    using assms(2) by (simp add: override_def)
  have differ: "pn_country p \<noteq> country entry"
    using assms(3,4) by simp
  show ?thesis
    using assms(1) differ by (simp add: phoneEngine_parsed fired finish_def Let_def)
qed

theorem declared_shape_never_prefixed_witness:
  "eg_parser ''+20 101 234 5678'' (country (defaults caller_EG)) = Inr (Some eg_number)
   \<and> declared_registry (property_key (pn_country eg_number)) = Some declared_EG
   \<and> country declared_EG = None
   \<and> pn_country eg_number \<noteq> None
   \<and> override declared_registry eg_number (defaults caller_EG) = declared_EG
   \<and> (\<exists>r. phoneEngine eg_parser ''+20 101 234 5678'' caller_EG declared_registry = Inr r
          \<and> forAsterisk r = ''+201012345678'')"
proof -
  have h1: "eg_parser ''+20 101 234 5678'' (country (defaults caller_EG)) = Inr (Some eg_number)"
    by (simp add: eg_parser_def)
  have h2: "declared_registry (property_key (pn_country eg_number)) = Some declared_EG"
    by (simp add: declared_registry_def property_key_def eg_number_def)
  have h3: "country declared_EG = None"
    by (simp add: declared_EG_def)
  have h4: "pn_country eg_number \<noteq> None"
    by (simp add: eg_number_def)
  note inst = declared_shape_never_prefixed [where parse = eg_parser
      and number = "''+20 101 234 5678''" and opts = caller_EG and p = eg_number
      and configs = declared_registry and entry = declared_EG, OF h1 h2 h3 h4]
  from h1 h2 h3 h4 inst [unfolded replaceAll_space_example] show ?thesis by blast
qed

text \<open>
  C10 as it is written covers every firing of the override. The lookup of line 44 turns
  an undefined country into the key \<open>undefined\<close>; with an entry of the declared shape
  under that key and a valid number without country, the override fires, both
  countries are undefined, the comparison succeeds and the dial format is the
  trunk-prefixed candidate.
\<close>

theorem undefined_key_counterexample:
  "nogeo_parser ''+800 1234 5678'' (country (defaults no_options)) = Inr (Some nogeo_number)
   \<and> undefined_registry (property_key (pn_country nogeo_number)) = Some declared_nine
   \<and> country declared_nine = None
   \<and> override undefined_registry nogeo_number (defaults no_options) = declared_nine
   \<and> phoneEngine nogeo_parser ''+800 1234 5678'' no_options undefined_registry
        = Inr \<lparr> e164 = ''+80012345678'', forAsterisk = ''912345678'', isValid = True \<rparr>
   \<and> replaceAll_space ''+800 1234 5678'' = ''+80012345678''
   \<and> ''912345678'' \<noteq> replaceAll_space ''+800 1234 5678''"
  by (simp add: phoneEngine_def nogeo_parser_def nogeo_number_def no_options_def
      undefined_registry_def declared_nine_def defaults_def override_def property_key_def
      finish_def processedNumber_def candidate_def startsWith_def replaceAll_space_def)

end
